theory Spec2Isabelle
  imports Main "HOL-Library.List_Lexorder" "HOL-Library.Char_ord" "HOL-Library.Product_Lexorder"
begin

section \<open>Errors\<close>

text \<open>
  Every exception the modelled code can raise is a value.  \<open>HTTPException\<close> carries the
  status code and the detail string that FastAPI turns into the response.
\<close>

datatype error =
    HTTPException nat string
  | ValidationError string
  | TypeError
  | KeyError string
  | AttributeError
  | ValueError

section \<open>Calendar store (src/main\_mcp.py, src/lib/models.py)\<close>

text \<open>
  A stored event is the dict built by \<open>add_event\<close>.  The key \<open>time\<close> is read with
  \<open>x.get("time", "00:00")\<close>, so it is the only field that may be absent.
\<close>

record event =
  ev_id :: string
  ev_title :: string
  ev_description :: string
  ev_date :: string
  ev_time :: "string option"
  ev_location :: string
  ev_created_at :: string


text \<open>
  The standard library and the wall clock are parameters of the model:
  \<open>strptime_date v\<close> is the day number of \<open>datetime.strptime(v, "%Y-%m-%d").date()\<close>, or
  \<open>None\<close> where it raises \<open>ValueError\<close>; \<open>strptime_time v\<close> says that
  \<open>datetime.strptime(v, "%H:%M")\<close> returns; \<open>today\<close>, \<open>timestamp\<close> and \<open>isoformat\<close> are
  \<open>datetime.now().date()\<close>, \<open>int(datetime.now().timestamp())\<close> and
  \<open>datetime.now().isoformat()\<close>.
\<close>

record pyenv =
  strptime_date :: "string \<Rightarrow> int option"
  strptime_time :: "string \<Rightarrow> bool"
  today :: int
  timestamp :: int
  isoformat :: string







text \<open>\<open>str(n)\<close> for an integer.\<close>

fun str_nat :: "nat \<Rightarrow> string" where
  "str_nat n =
     (if n < 10 then [''0123456789'' ! n]
      else str_nat (n div 10) @ [''0123456789'' ! (n mod 10)])"

declare str_nat.simps [simp del]

definition str_int :: "int \<Rightarrow> string" where
  "str_int i = (if i < 0 then CHR ''-'' # str_nat (nat (- i)) else str_nat (nat i))"

record events_response =
  events :: "event list"
  total_count :: nat

definition time_key :: "event \<Rightarrow> string" where
  "time_key x = (case ev_time x of None \<Rightarrow> ''00:00'' | Some t \<Rightarrow> t)"

definition in_window :: "pyenv \<Rightarrow> int \<Rightarrow> event \<Rightarrow> bool" where
  "in_window env days_ahead ev =
     (case strptime_date env (ev_date ev) of
        None \<Rightarrow> False
      | Some event_date \<Rightarrow> today env \<le> event_date \<and> event_date \<le> today env + days_ahead)"

definition get_events ::
  "pyenv \<Rightarrow> string option \<Rightarrow> int \<Rightarrow> event list \<Rightarrow> error + events_response" where
  "get_events env date days_ahead evs =
     (case (if date = Some [] then None else date) of
        Some d \<Rightarrow>
          (case strptime_date env d of
             None \<Rightarrow> Inl (HTTPException 400 ''Invalid date format. Use YYYY-MM-DD'')
           | Some _ \<Rightarrow>
               (let filtered_events =
                      sort_key (\<lambda>x. (ev_date x, time_key x)) (filter (\<lambda>ev. ev_date ev = d) evs)
                in Inr \<lparr>events = filtered_events, total_count = length filtered_events\<rparr>))
      | None \<Rightarrow>
          (let filtered_events =
                 sort_key (\<lambda>x. (ev_date x, time_key x)) (filter (in_window env days_ahead) evs)
           in Inr \<lparr>events = filtered_events, total_count = length filtered_events\<rparr>))"



text \<open>
  The loop of \<open>delete_event\<close>: \<open>seen\<close> holds the events already passed, so that popping
  index \<open>i\<close> leaves \<open>seen @ rest\<close>.
\<close>

fun delete_scan :: "string \<Rightarrow> event list \<Rightarrow> event list \<Rightarrow> (event \<times> event list) option" where
  "delete_scan event_id seen [] = None"
| "delete_scan event_id seen (e # es) =
     (if ev_id e = event_id then Some (e, seen @ es)
      else delete_scan event_id (seen @ [e]) es)"

definition delete_event :: "string \<Rightarrow> event list \<Rightarrow> (error + event) \<times> event list" where
  "delete_event event_id evs =
     (case delete_scan event_id [] evs of
        Some (deleted_event, evs') \<Rightarrow> (Inr deleted_event, evs')
      | None \<Rightarrow> (Inl (HTTPException 404 ''Event not found''), evs))"

section \<open>Configuration (src/main\_mcp.py, src/lib/models.py)\<close>

text \<open>
  The configuration is a dict from setting names to values.  A float is a value of a type
  \<open>'f\<close> the model does not look into; \<open>py_int\<close> and \<open>py_float\<close> are the built-ins
  \<open>int(value)\<close> and \<open>float(value)\<close> on a string, \<open>None\<close> where they raise \<open>ValueError\<close>.
\<close>

datatype 'f config_value = CStr string | CInt int | CFloat 'f | CList "string list"

type_synonym 'f config = "string \<rightharpoonup> 'f config_value"

record config_update =
  cu_setting :: string
  cu_value :: string

definition allowed_settings :: "string list" where
  "allowed_settings =
     [''default_country'', ''default_language'', ''max_articles'',
      ''api_timeout'', ''max_concurrent_requests'']"

text \<open>
  The validator's message holds \<open>repr(allowed_settings)\<close>: each name between single quotes,
  the names separated by a comma and a space, the whole between brackets.
\<close>

fun join :: "string \<Rightarrow> string list \<Rightarrow> string" where
  "join sep [] = []"
| "join sep [x] = x"
| "join sep (x # y # ys) = x @ sep @ join sep (y # ys)"

definition repr_names :: "string list \<Rightarrow> string" where
  "repr_names xs = ''['' @ join '', '' (map (\<lambda>x. [CHR 0x27] @ x @ [CHR 0x27]) xs) @ '']''"

definition validate_setting :: "string \<Rightarrow> error + string" where
  "validate_setting v =
     (if v \<notin> set allowed_settings then
        Inl (ValidationError (''Invalid setting. Allowed: '' @ repr_names allowed_settings))
      else Inr v)"

definition ConfigUpdate :: "string \<Rightarrow> string \<Rightarrow> error + config_update" where
  "ConfigUpdate setting val =
     (case validate_setting setting of
        Inl e \<Rightarrow> Inl e
      | Inr v \<Rightarrow> Inr \<lparr>cu_setting = v, cu_value = val\<rparr>)"

record 'f config_response =
  cr_setting :: string
  cr_old_value :: "'f config_value option"
  cr_new_value :: "'f config_value"

definition set_config ::
  "string \<Rightarrow> 'f config_value \<Rightarrow> 'f config \<Rightarrow> (error + 'f config_response) \<times> 'f config" where
  "set_config setting val config =
     (Inr \<lparr>cr_setting = setting, cr_old_value = config setting, cr_new_value = val\<rparr>,
      config(setting \<mapsto> val))"

definition update_config ::
  "(string \<Rightarrow> int option) \<Rightarrow> (string \<Rightarrow> 'f option) \<Rightarrow> config_update \<Rightarrow> 'f config
     \<Rightarrow> (error + 'f config_response) \<times> 'f config" where
  "update_config py_int py_float config_update config =
     (let setting = cu_setting config_update; val = cu_value config_update
      in if setting \<in> set [''max_articles'', ''max_concurrent_requests''] then
           (case py_int val of
              None \<Rightarrow>
                (Inl (HTTPException 400 (''Invalid value for '' @ setting @ '': must be integer'')),
                 config)
            | Some n \<Rightarrow> set_config setting (CInt n) config)
         else if setting = ''api_timeout'' then
           (case py_float val of
              None \<Rightarrow>
                (Inl (HTTPException 400 (''Invalid value for '' @ setting @ '': must be numeric'')),
                 config)
            | Some x \<Rightarrow> set_config setting (CFloat x) config)
         else set_config setting (CStr val) config)"

text \<open>
  The route \<open>POST /config\<close>: FastAPI builds the \<open>ConfigUpdate\<close> body first and calls
  \<open>update_config\<close> only when the validator accepted it.
\<close>

definition post_config ::
  "(string \<Rightarrow> int option) \<Rightarrow> (string \<Rightarrow> 'f option) \<Rightarrow> string \<Rightarrow> string \<Rightarrow> 'f config
     \<Rightarrow> (error + 'f config_response) \<times> 'f config" where
  "post_config py_int py_float setting val config =
     (case ConfigUpdate setting val of
        Inl e \<Rightarrow> (Inl e, config)
      | Inr config_update \<Rightarrow> update_config py_int py_float config_update config)"

section \<open>Reply parsing (src/chainlint.py)\<close>

text \<open>
  The values \<open>json.loads\<close> returns.  Python's \<open>None\<close> is \<open>JNull\<close>; a dict is the list
  of its items, read with \<open>map_of\<close>; a float is a value of a type \<open>'f\<close> the model does not look
  into.
\<close>

datatype 'f json =
    JNull
  | JBool bool
  | JInt int
  | JFloat 'f
  | JStr string
  | JArr "'f json list"
  | JObj "(string \<times> 'f json) list"

text \<open>
  \<open>re.search(r'(\{.*\})', text, re.DOTALL)\<close>: the leftmost match starts at the first
  opening brace that has a closing brace after it, and the greedy \<open>.*\<close> (which matches
  newlines too) runs to the last closing brace of the text.
\<close>

definition search_braces :: "string \<Rightarrow> string option" where
  "search_braces text =
     (let rest = dropWhile (\<lambda>c. c \<noteq> CHR ''{'') text
      in if CHR ''}'' \<in> set rest
         then Some (rev (dropWhile (\<lambda>c. c \<noteq> CHR ''}'') (rev rest)))
         else None)"

text \<open>
  \<open>loads\<close> is \<open>json.loads\<close>, with \<open>None\<close> where it raises.  \<open>extract_json_from_text\<close>
  returns Python's \<open>None\<close> both when nothing matches and when the parse fails.
\<close>

definition extract_json_from_text :: "(string \<Rightarrow> 'f json option) \<Rightarrow> string \<Rightarrow> 'f json" where
  "extract_json_from_text loads text =
     (case search_braces text of
        Some json_str \<Rightarrow> (case loads json_str of Some v \<Rightarrow> v | None \<Rightarrow> JNull)
      | None \<Rightarrow> JNull)"

text \<open>\<open>d.get(k)\<close> and \<open>d.get(k, default)\<close> on the items of a dict.\<close>

definition dict_get :: "(string \<times> 'f json) list \<Rightarrow> string \<Rightarrow> 'f json \<Rightarrow> 'f json" where
  "dict_get items k dflt = (case map_of items k of Some v \<Rightarrow> v | None \<Rightarrow> dflt)"

text \<open>
  What \<open>LLMClient.generate_response\<close> returns once the model's reply \<open>content\<close> is there (the
  code from "Try to parse as JSON for tool calls" on): a dict of type \<open>tool_call\<close> with the
  keys \<open>tool\<close> and \<open>arguments\<close>, or a dict of type \<open>text\<close> with the key \<open>content\<close>.
\<close>

datatype 'f response = ToolCall "'f json" "'f json" | Text string

definition generate_response :: "(string \<Rightarrow> 'f json option) \<Rightarrow> string \<Rightarrow> 'f response" where
  "generate_response loads content =
     (case loads content of
        None \<Rightarrow> Text content
      | Some parsed \<Rightarrow>
          (case parsed of
             JObj items \<Rightarrow>
               (if dict_get items ''action'' JNull = JStr ''use_tool''
                then ToolCall (dict_get items ''tool'' JNull) (dict_get items ''arguments'' (JObj []))
                else Text content)
           | _ \<Rightarrow> Text content))"

text \<open>\<open>v[k]\<close> with a string key: only a dict can be read so, and only at a key it holds.\<close>

definition subscript :: "'f json \<Rightarrow> string \<Rightarrow> error + 'f json" where
  "subscript v k =
     (case v of
        JObj items \<Rightarrow> (case map_of items k of Some x \<Rightarrow> Inr x | None \<Rightarrow> Inl (KeyError k))
      | _ \<Rightarrow> Inl TypeError)"

text \<open>
  The message handler \<open>main\<close>, from the reply of \<open>generate_response\<close> on: it either hands a
  tool name and arguments to \<open>handle_tool_call\<close> (\<open>ToolAction\<close>) or sends a text to the user and
  appends it to the conversation (\<open>TextAction\<close>).  Every subscript can raise.
\<close>

datatype 'f action = ToolAction "'f json" "'f json" | TextAction "'f json"

definition response_content :: "'f response \<Rightarrow> error + string" where
  "response_content response =
     (case response of Text content \<Rightarrow> Inr content | ToolCall t a \<Rightarrow> Inl (KeyError ''content''))"

definition main :: "(string \<Rightarrow> 'f json option) \<Rightarrow> 'f response \<Rightarrow> error + 'f action" where
  "main loads response =
     (case response_content response of
        Inl e \<Rightarrow> Inl e
      | Inr content \<Rightarrow>
          (let parsed = extract_json_from_text loads content
           in case subscript parsed ''action'' of
                Inl e \<Rightarrow> Inl e
              | Inr a \<Rightarrow>
                  (if a = JStr ''use_tool'' then
                     (case subscript parsed ''tool'' of
                        Inl e \<Rightarrow> Inl e
                      | Inr tool \<Rightarrow>
                          (case subscript parsed ''arguments'' of
                             Inl e \<Rightarrow> Inl e
                           | Inr arguments \<Rightarrow> Inr (ToolAction tool arguments)))
                   else
                     (case subscript parsed ''content'' of
                        Inl e \<Rightarrow> Inl e
                      | Inr c \<Rightarrow> Inr (TextAction c)))))"

section \<open>Tool dispatch (src/chainlint.py, MCPClient)\<close>

text \<open>
  A request of the HTTP client, and what it comes to: \<open>Inl msg\<close> when the call or
  \<open>raise_for_status\<close> raises an exception \<open>e\<close> with \<open>str(e) = msg\<close>; otherwise the outcome of
  \<open>resp.json()\<close>, again a message or a value.
\<close>

datatype 'f request =
    HttpGet string "'f json option"
  | HttpPost string "'f json"
  | HttpDelete string

type_synonym 'f http = "'f request \<Rightarrow> string + (string + 'f json)"

record mcp_client =
  base_url :: string
  connected :: bool
  available_tools :: "(string \<times> string) list"

definition tool_catalog :: "(string \<times> string) list" where
  "tool_catalog =
     [(''search_news'', ''Search for news articles using NewsAPI''),
      (''get_top_headlines'', ''Get top headlines from NewsAPI''),
      (''search_web'', ''Search the web using SerpAPI''),
      (''parse_rss_feed'', ''Parse and retrieve articles from RSS feed''),
      (''add_event'', ''Add an event to the calendar''),
      (''get_events'', ''Get events from the calendar''),
      (''delete_event'', ''Delete an event from the calendar''),
      (''update_config'', ''Update server configuration'')]"

text \<open>Each of the functions below also returns the requests it has sent, in order.\<close>

definition list_tools :: "'f http \<Rightarrow> mcp_client \<Rightarrow> (string \<times> string) list \<times> 'f request list" where
  "list_tools http self =
     (let endpoint = base_url self @ ''/resources''
      in case http (HttpGet endpoint None) of
           Inl e \<Rightarrow> ([], [HttpGet endpoint None])
         | Inr body \<Rightarrow> (tool_catalog, [HttpGet endpoint None]))"

definition connect :: "'f http \<Rightarrow> mcp_client \<Rightarrow> mcp_client \<times> 'f request list" where
  "connect http self =
     (case list_tools http self of
        (tools, sent) \<Rightarrow> (self\<lparr>available_tools := tools, connected := True\<rparr>, sent))"

text \<open>
  \<open>py_str\<close> is the built-in \<open>str\<close> on a value that is not a string, \<open>float_truthy\<close> is
  \<open>bool\<close> on a float: both belong to the language, not to this program.
\<close>

record 'f builtins =
  py_str :: "'f json \<Rightarrow> string"
  float_truthy :: "'f \<Rightarrow> bool"

definition format_value :: "'f builtins \<Rightarrow> 'f json \<Rightarrow> string" where
  "format_value lib v = (case v of JStr s \<Rightarrow> s | _ \<Rightarrow> py_str lib v)"

definition truthy :: "'f builtins \<Rightarrow> 'f json \<Rightarrow> bool" where
  "truthy lib v =
     (case v of
        JNull \<Rightarrow> False
      | JBool b \<Rightarrow> b
      | JInt i \<Rightarrow> i \<noteq> 0
      | JFloat x \<Rightarrow> float_truthy lib x
      | JStr s \<Rightarrow> s \<noteq> []
      | JArr xs \<Rightarrow> xs \<noteq> []
      | JObj items \<Rightarrow> items \<noteq> [])"

definition type_name :: "'f json \<Rightarrow> string" where
  "type_name v =
     (case v of
        JNull \<Rightarrow> ''NoneType''
      | JBool b \<Rightarrow> ''bool''
      | JInt i \<Rightarrow> ''int''
      | JFloat x \<Rightarrow> ''float''
      | JStr s \<Rightarrow> ''str''
      | JArr xs \<Rightarrow> ''list''
      | JObj items \<Rightarrow> ''dict'')"

definition error_dict :: "string \<Rightarrow> 'f json" where
  "error_dict msg = JObj [(''error'', JStr msg)]"

text \<open>Sending one request and reading its JSON body, inside the \<open>try\<close> of \<open>call_tool\<close>.\<close>

definition send :: "'f http \<Rightarrow> 'f request \<Rightarrow> 'f json \<times> 'f request list" where
  "send http req =
     (case http req of
        Inl e \<Rightarrow> (error_dict e, [req])
      | Inr body \<Rightarrow> (case body of Inl e \<Rightarrow> (error_dict e, [req]) | Inr v \<Rightarrow> (v, [req])))"

definition dispatch ::
  "'f builtins \<Rightarrow> 'f http \<Rightarrow> mcp_client \<Rightarrow> 'f json \<Rightarrow> 'f json \<Rightarrow> 'f json \<times> 'f request list" where
  "dispatch lib http self tool_name arguments =
     (if tool_name = JStr ''search_news'' then
        send http (HttpGet (base_url self @ ''/news/search'') (Some arguments))
      else if tool_name = JStr ''get_top_headlines'' then
        send http (HttpGet (base_url self @ ''/news/headlines'') (Some arguments))
      else if tool_name = JStr ''search_web'' then
        send http (HttpGet (base_url self @ ''/web/search'') (Some arguments))
      else if tool_name = JStr ''parse_rss_feed'' then
        send http (HttpGet (base_url self @ ''/rss/parse'') (Some arguments))
      else if tool_name = JStr ''add_event'' then
        send http (HttpPost (base_url self @ ''/events'') arguments)
      else if tool_name = JStr ''get_events'' then
        send http (HttpGet (base_url self @ ''/events'') (Some arguments))
      else if tool_name = JStr ''delete_event'' then
        (case arguments of
           JObj items \<Rightarrow>
             (let event_id = dict_get items ''event_id'' JNull
              in if \<not> truthy lib event_id then (error_dict ''event_id is required'', [])
                 else send http (HttpDelete (base_url self @ ''/events/'' @ format_value lib event_id)))
         | _ \<Rightarrow>
             (error_dict ([CHR 0x27] @ type_name arguments @ [CHR 0x27]
                          @ '' object has no attribute '' @ [CHR 0x27] @ ''get'' @ [CHR 0x27]), []))
      else if tool_name = JStr ''update_config'' then
        send http (HttpPost (base_url self @ ''/config'') arguments)
      else (error_dict (''Unknown tool: '' @ format_value lib tool_name), []))"

definition call_tool ::
  "'f builtins \<Rightarrow> 'f http \<Rightarrow> mcp_client \<Rightarrow> 'f json \<Rightarrow> 'f json
     \<Rightarrow> 'f json \<times> mcp_client \<times> 'f request list" where
  "call_tool lib http self tool_name arguments =
     (case (if \<not> connected self then connect http self else (self, [])) of
        (self', probe) \<Rightarrow>
          (case dispatch lib http self' tool_name arguments of
             (result, sent) \<Rightarrow> (result, self', probe @ sent)))"

section \<open>Feed fetching (src/lib/utils.py, src/lib/services.py)\<close>

text \<open>
  \<open>urlparse\<close> is \<open>urllib.parse.urlparse\<close> followed by reading \<open>scheme\<close> and \<open>hostname\<close>,
  \<open>None\<close> where either raises; \<open>py_int\<close> is \<open>int\<close> on a string, as above.
\<close>

record parsed_url =
  scheme :: string
  hostname :: "string option"

definition startswith :: "string \<Rightarrow> string \<Rightarrow> bool" where
  "startswith s p = (take (length p) s = p)"

text \<open>\<open>s.split(sep)\<close> for a separator of one character.\<close>

fun split :: "char \<Rightarrow> string \<Rightarrow> string list" where
  "split sep [] = [[]]"
| "split sep (c # cs) =
     (if c = sep then [] # split sep cs
      else (case split sep cs of x # xs \<Rightarrow> (c # x) # xs | [] \<Rightarrow> [[c]]))"

text \<open>
  \<open>parsed.hostname and parsed.hostname.startswith(p)\<close>: a missing or empty hostname is
  false.
\<close>

definition host_startswith :: "string option \<Rightarrow> string \<Rightarrow> bool" where
  "host_startswith h p = (case h of None \<Rightarrow> False | Some name \<Rightarrow> name \<noteq> [] \<and> startswith name p)"

definition validate_url ::
  "(string \<Rightarrow> parsed_url option) \<Rightarrow> (string \<Rightarrow> int option) \<Rightarrow> string \<Rightarrow> bool" where
  "validate_url urlparse py_int url =
     (case urlparse url of
        None \<Rightarrow> False
      | Some parsed \<Rightarrow>
          (if scheme parsed \<notin> set [''http'', ''https''] then False
           else if hostname parsed \<in> set [Some ''localhost'', Some ''127.0.0.1'', Some ''0.0.0.0'']
             then False
           else if host_startswith (hostname parsed) ''192.168.'' then False
           else if host_startswith (hostname parsed) ''10.'' then False
           else
             (case hostname parsed of
                None \<Rightarrow> True
              | Some name \<Rightarrow>
                  (if name \<noteq> [] \<and> startswith name ''172.'' then
                     (let octets = split CHR ''.'' name
                      in if length octets = 4 then
                           (case py_int (octets ! 1) of
                              None \<Rightarrow> False
                            | Some n \<Rightarrow> if 16 \<le> n \<and> n \<le> 31 then False else True)
                         else True)
                   else True))))"

text \<open>
  A feed as \<open>feedparser.parse\<close> returns it: the feed's own fields and its entries, each a
  dict read with \<open>get(key, "")\<close>.
\<close>

record parsed_feed =
  feed_fields :: "string \<rightharpoonup> string"
  feed_entries :: "(string \<rightharpoonup> string) list"

definition field :: "(string \<rightharpoonup> string) \<Rightarrow> string \<Rightarrow> string" where
  "field d k = (case d k of None \<Rightarrow> [] | Some v \<Rightarrow> v)"

record feed_entry =
  fe_title :: string
  fe_link :: string
  fe_description :: string
  fe_published :: string
  fe_author :: string

record feed_data =
  feed_title :: string
  feed_description :: string
  entries :: "feed_entry list"
  total_entries :: nat

text \<open>
  One element of \<open>feeds\<close>: \<open>{"url": u, "data": d}\<close>, \<open>{"url": u, "error": msg}\<close>, or the
  \<open>{"error": msg}\<close> built for a task that ended with an exception.
\<close>

datatype feed_result =
    FeedData string feed_data
  | FeedError string string
  | TaskError string

text \<open>\<open>xs[:n]\<close>.\<close>

definition slice_to :: "int \<Rightarrow> 'a list \<Rightarrow> 'a list" where
  "slice_to n xs = (if 0 \<le> n then take (nat n) xs else take (length xs - nat (- n)) xs)"

definition make_entry :: "(string \<rightharpoonup> string) \<Rightarrow> feed_entry" where
  "make_entry entry =
     \<lparr>fe_title = field entry ''title'', fe_link = field entry ''link'',
      fe_description = field entry ''description'', fe_published = field entry ''published'',
      fe_author = field entry ''author''\<rparr>"

text \<open>
  \<open>session\<close> is the part of \<open>fetch_single_rss_feed\<close> that leaves the process:
  \<open>session.get(feed_url)\<close>, \<open>raise_for_status()\<close> and \<open>feedparser.parse(response.text)\<close>, with
  \<open>Inl msg\<close> when one of them raises an exception \<open>e\<close> with \<open>str(e) = msg\<close>.  The second
  component of the result lists the URLs that were requested.
\<close>

definition fetch_single_rss_feed ::
  "(string \<Rightarrow> parsed_url option) \<Rightarrow> (string \<Rightarrow> int option) \<Rightarrow> (string \<Rightarrow> string + parsed_feed)
     \<Rightarrow> string \<Rightarrow> int \<Rightarrow> feed_result \<times> string list" where
  "fetch_single_rss_feed urlparse py_int session feed_url max_entries =
     (if \<not> validate_url urlparse py_int feed_url then
        (FeedError feed_url ''Invalid or unsafe URL'', [])
      else
        (case session feed_url of
           Inl e \<Rightarrow> (FeedError feed_url e, [feed_url])
         | Inr feed \<Rightarrow>
             (let es = map make_entry (slice_to max_entries (feed_entries feed))
              in (FeedData feed_url
                    \<lparr>feed_title = field (feed_fields feed) ''title'',
                     feed_description = field (feed_fields feed) ''description'',
                     entries = es, total_entries = length es\<rparr>,
                  [feed_url]))))"

text \<open>
  A call either raises, or never returns, or returns.  \<open>asyncio.Semaphore(n)\<close> raises
  \<open>ValueError\<close> for a negative \<open>n\<close>; with \<open>n = 0\<close> no task ever enters
  \<open>async with semaphore\<close>, so \<open>gather\<close> waits for ever unless there is no task at all.
\<close>

datatype 'a outcome = Raises error | Hangs | Returns 'a

record aggregate =
  feeds :: "feed_result list"
  total_feeds :: nat

text \<open>The \<open>url\<close> key of an element of \<open>feeds\<close>, when it has one.\<close>

definition result_url :: "feed_result \<Rightarrow> string option" where
  "result_url r =
     (case r of FeedData u d \<Rightarrow> Some u | FeedError u e \<Rightarrow> Some u | TaskError e \<Rightarrow> None)"

definition process_result :: "string + feed_result \<Rightarrow> feed_result" where
  "process_result result = (case result of Inl e \<Rightarrow> TaskError e | Inr r \<Rightarrow> r)"

text \<open>
  \<open>net i\<close> is the session as task \<open>i\<close> meets it.  \<open>asyncio.gather\<close> returns the results in
  the order of the tasks it was given, whatever the order in which they finish; a task's
  result is \<open>Inr\<close> because \<open>fetch_single_rss_feed\<close> catches every exception itself.  The
  second component of the result lists, task by task, the URLs requested.
\<close>

definition fetch_feeds_concurrent ::
  "(string \<Rightarrow> parsed_url option) \<Rightarrow> (string \<Rightarrow> int option)
     \<Rightarrow> (nat \<Rightarrow> string \<Rightarrow> string + parsed_feed) \<Rightarrow> string list \<Rightarrow> int
     \<Rightarrow> (aggregate \<times> string list list) outcome" where
  "fetch_feeds_concurrent urlparse py_int net feed_urls max_concurrent =
     (if max_concurrent < 0 then Raises ValueError
      else if max_concurrent = 0 \<and> feed_urls \<noteq> [] then Hangs
      else
        (let tasks = map (\<lambda>(i, feed_url). fetch_single_rss_feed urlparse py_int (net i) feed_url 5)
                       (enumerate 0 feed_urls);
             results = map (\<lambda>t. Inr (fst t)) tasks;
             processed_results = map process_result results
         in Returns (\<lparr>feeds = processed_results, total_feeds = length processed_results\<rparr>,
                     map snd tasks)))"

section \<open>The library at the sample inputs\<close>

text \<open>
  The theorems below hold for every behaviour of the library functions the model takes as
  parameters.  To run the model on sample inputs, this section gives those parameters a
  value: small readers that decide as the library does on the fragment described with each,
  which the samples do not leave.
\<close>

subsection \<open>Integers and URLs\<close>

text \<open>
  \<open>decimal\<close> is \<open>int\<close> on a non-empty string of the digits 0 to 9.  \<open>whole_float\<close> is
  \<open>float\<close> on the same strings, the float written as the integer it equals.
\<close>

definition digit_value :: "char \<Rightarrow> int option" where
  "digit_value c =
     (let n = (of_char c :: nat) in if 48 \<le> n \<and> n \<le> 57 then Some (int n - 48) else None)"

fun decimal_from :: "int \<Rightarrow> string \<Rightarrow> int option" where
  "decimal_from acc [] = Some acc"
| "decimal_from acc (c # cs) =
     (case digit_value c of None \<Rightarrow> None | Some d \<Rightarrow> decimal_from (10 * acc + d) cs)"

definition decimal :: "string \<Rightarrow> int option" where
  "decimal s = (if s = [] then None else decimal_from 0 s)"

definition whole_float :: "string \<Rightarrow> int option" where
  "whole_float s = decimal s"

text \<open>
  \<open>simple_urlparse\<close> is \<open>urlparse\<close> on a lower-case URL \<open>scheme://host\<close> or
  \<open>scheme://host/path\<close> whose host has no user, port or bracket.
\<close>

definition simple_urlparse :: "string \<Rightarrow> parsed_url option" where
  "simple_urlparse url =
     (let sch = takeWhile (\<lambda>c. c \<noteq> CHR '':'') url;
          rest = dropWhile (\<lambda>c. c \<noteq> CHR '':'') url
      in if take 3 rest = ''://'' then
           (let host = takeWhile (\<lambda>c. c \<noteq> CHR ''/'') (drop 3 rest)
            in Some \<lparr>scheme = sch, hostname = (if host = [] then None else Some host)\<rparr>)
         else Some \<lparr>scheme = [], hostname = None\<rparr>)"

subsection \<open>A reader for JSON texts\<close>

text \<open>
  \<open>json_loads\<close> is \<open>json.loads\<close> on texts of one-byte characters whose numbers are integers
  and whose strings use no \<open>\u\<close> escape: it returns the value for a well-formed text and
  \<open>None\<close> for a malformed one (no value, a value followed by more text, a missing or extra
  comma, an unterminated string, a number with a leading zero).  A first pass cuts the text
  into tokens, one character at a time; a second pass builds the value with a stack of the
  objects and arrays still open.  A key given twice keeps its place and takes the later
  value, as in a dict.
\<close>

datatype token =
    LBrace | RBrace | LBracket | RBracket | Colon | Comma
  | TString string | TNumber int | TWord string

datatype lstate = Idle | InString string | InEscape string | InNumber string | InWord string

definition is_digit :: "char \<Rightarrow> bool" where
  "is_digit c = (let n = (of_char c :: nat) in 48 \<le> n \<and> n \<le> 57)"

definition is_letter :: "char \<Rightarrow> bool" where
  "is_letter c =
     (let n = (of_char c :: nat) in (65 \<le> n \<and> n \<le> 90) \<or> (97 \<le> n \<and> n \<le> 122))"

definition unescape :: "char \<Rightarrow> char option" where
  "unescape c =
     (if c = CHR 0x22 then Some (CHR 0x22)
      else if c = CHR 0x5C then Some (CHR 0x5C)
      else if c = CHR ''/'' then Some CHR ''/''
      else if c = CHR ''b'' then Some (CHR 0x08)
      else if c = CHR ''f'' then Some (CHR 0x0C)
      else if c = CHR ''n'' then Some (CHR 0x0A)
      else if c = CHR ''r'' then Some (CHR 0x0D)
      else if c = CHR ''t'' then Some (CHR 0x09)
      else None)"

text \<open>An integer literal: an optional minus sign, then \<open>0\<close> or digits that do not start with \<open>0\<close>.\<close>

definition json_int :: "string \<Rightarrow> int option" where
  "json_int s =
     (case s of
        [] \<Rightarrow> None
      | c # cs \<Rightarrow>
          (let ds = (if c = CHR ''-'' then cs else s)
           in case ds of
                [] \<Rightarrow> None
              | d # rest \<Rightarrow>
                  (if d = CHR ''0'' \<and> rest \<noteq> [] then None
                   else (case decimal ds of
                           None \<Rightarrow> None
                         | Some n \<Rightarrow> Some (if c = CHR ''-'' then - n else n)))))"

text \<open>The character that follows a finished token: the new state and the tokens it gives.\<close>

definition start :: "char \<Rightarrow> (lstate \<times> token list) option" where
  "start c =
     (if c = CHR '' '' \<or> c = CHR 0x09 \<or> c = CHR 0x0A \<or> c = CHR 0x0D then Some (Idle, [])
      else if c = CHR ''{'' then Some (Idle, [LBrace])
      else if c = CHR ''}'' then Some (Idle, [RBrace])
      else if c = CHR ''['' then Some (Idle, [LBracket])
      else if c = CHR '']'' then Some (Idle, [RBracket])
      else if c = CHR '':'' then Some (Idle, [Colon])
      else if c = CHR '','' then Some (Idle, [Comma])
      else if c = CHR 0x22 then Some (InString [], [])
      else if c = CHR ''-'' \<or> is_digit c then Some (InNumber [c], [])
      else if is_letter c then Some (InWord [c], [])
      else None)"

definition emit :: "token list \<Rightarrow> token list option \<Rightarrow> token list option" where
  "emit ts r = (case r of None \<Rightarrow> None | Some us \<Rightarrow> Some (ts @ us))"

fun lex :: "lstate \<Rightarrow> string \<Rightarrow> token list option" where
  "lex Idle [] = Some []"
| "lex (InString acc) [] = None"
| "lex (InEscape acc) [] = None"
| "lex (InNumber ds) [] =
     (case json_int (rev ds) of None \<Rightarrow> None | Some n \<Rightarrow> Some [TNumber n])"
| "lex (InWord w) [] = Some [TWord (rev w)]"
| "lex Idle (c # cs) =
     (case start c of None \<Rightarrow> None | Some (st, ts) \<Rightarrow> emit ts (lex st cs))"
| "lex (InString acc) (c # cs) =
     (if c = CHR 0x22 then emit [TString (rev acc)] (lex Idle cs)
      else if c = CHR 0x5C then lex (InEscape acc) cs
      else if (of_char c :: nat) < 32 then None
      else lex (InString (c # acc)) cs)"
| "lex (InEscape acc) (c # cs) =
     (case unescape c of None \<Rightarrow> None | Some x \<Rightarrow> lex (InString (x # acc)) cs)"
| "lex (InNumber ds) (c # cs) =
     (if is_digit c then lex (InNumber (c # ds)) cs
      else if c = CHR ''.'' \<or> c = CHR ''e'' \<or> c = CHR ''E'' then None
      else (case json_int (rev ds) of
              None \<Rightarrow> None
            | Some n \<Rightarrow>
                (case start c of
                   None \<Rightarrow> None
                 | Some (st, ts) \<Rightarrow> emit (TNumber n # ts) (lex st cs))))"
| "lex (InWord w) (c # cs) =
     (if is_letter c then lex (InWord (c # w)) cs
      else (case start c of
              None \<Rightarrow> None
            | Some (st, ts) \<Rightarrow> emit (TWord (rev w) # ts) (lex st cs)))"

datatype 'f frame =
    ObjFrame "(string \<times> 'f json) list" "string option"
  | ArrFrame "'f json list"

datatype expect = EValue | EValueOrClose | EKeyOrClose | EKey | EColon | ECommaOrClose | EDone

fun dict_set :: "string \<Rightarrow> 'f json \<Rightarrow> (string \<times> 'f json) list \<Rightarrow> (string \<times> 'f json) list" where
  "dict_set k v [] = [(k, v)]"
| "dict_set k v ((k', v') # items) =
     (if k' = k then (k, v) # items else (k', v') # dict_set k v items)"

type_synonym 'f pstate = "'f json option \<times> 'f frame list \<times> expect"

definition deliver :: "'f json \<Rightarrow> 'f frame list \<Rightarrow> 'f pstate option" where
  "deliver v stack =
     (case stack of
        [] \<Rightarrow> Some (Some v, [], EDone)
      | ObjFrame items (Some k) # rest \<Rightarrow>
          Some (None, ObjFrame (dict_set k v items) None # rest, ECommaOrClose)
      | ObjFrame items None # rest \<Rightarrow> None
      | ArrFrame xs # rest \<Rightarrow> Some (None, ArrFrame (xs @ [v]) # rest, ECommaOrClose))"

definition close_object :: "'f frame list \<Rightarrow> 'f pstate option" where
  "close_object stack =
     (case stack of ObjFrame items None # rest \<Rightarrow> deliver (JObj items) rest | _ \<Rightarrow> None)"

definition close_array :: "'f frame list \<Rightarrow> 'f pstate option" where
  "close_array stack =
     (case stack of ArrFrame xs # rest \<Rightarrow> deliver (JArr xs) rest | _ \<Rightarrow> None)"

definition set_key :: "string \<Rightarrow> 'f frame list \<Rightarrow> 'f pstate option" where
  "set_key k stack =
     (case stack of
        ObjFrame items None # rest \<Rightarrow> Some (None, ObjFrame items (Some k) # rest, EColon)
      | _ \<Rightarrow> None)"

definition open_value :: "token \<Rightarrow> 'f frame list \<Rightarrow> 'f pstate option" where
  "open_value t stack =
     (case t of
        TString s \<Rightarrow> deliver (JStr s) stack
      | TNumber n \<Rightarrow> deliver (JInt n) stack
      | TWord w \<Rightarrow>
          (if w = ''null'' then deliver JNull stack
           else if w = ''true'' then deliver (JBool True) stack
           else if w = ''false'' then deliver (JBool False) stack
           else None)
      | LBrace \<Rightarrow> Some (None, ObjFrame [] None # stack, EKeyOrClose)
      | LBracket \<Rightarrow> Some (None, ArrFrame [] # stack, EValueOrClose)
      | _ \<Rightarrow> None)"

definition step :: "'f frame list \<Rightarrow> expect \<Rightarrow> token \<Rightarrow> 'f pstate option" where
  "step stack e t =
     (case e of
        EValue \<Rightarrow> open_value t stack
      | EValueOrClose \<Rightarrow> (if t = RBracket then close_array stack else open_value t stack)
      | EKeyOrClose \<Rightarrow>
          (case t of TString k \<Rightarrow> set_key k stack | RBrace \<Rightarrow> close_object stack | _ \<Rightarrow> None)
      | EKey \<Rightarrow> (case t of TString k \<Rightarrow> set_key k stack | _ \<Rightarrow> None)
      | EColon \<Rightarrow> (if t = Colon then Some (None, stack, EValue) else None)
      | ECommaOrClose \<Rightarrow>
          (case t of
             Comma \<Rightarrow>
               (case stack of
                  ObjFrame items k # rest \<Rightarrow> Some (None, stack, EKey)
                | ArrFrame xs # rest \<Rightarrow> Some (None, stack, EValue)
                | [] \<Rightarrow> None)
           | RBrace \<Rightarrow> close_object stack
           | RBracket \<Rightarrow> close_array stack
           | _ \<Rightarrow> None)
      | EDone \<Rightarrow> None)"

fun parse :: "'f pstate \<Rightarrow> token list \<Rightarrow> 'f json option" where
  "parse (done, stack, e) [] = (if stack = [] \<and> e = EDone then done else None)"
| "parse (done, stack, e) (t # ts) =
     (case step stack e t of None \<Rightarrow> None | Some st \<Rightarrow> parse st ts)"

definition json_loads :: "string \<Rightarrow> int json option" where
  "json_loads s = (case lex Idle s of None \<Rightarrow> None | Some ts \<Rightarrow> parse (None, [], EValue) ts)"

subsection \<open>Built-ins, clock and network\<close>

text \<open>
  \<open>sample_py_str\<close> is \<open>str\<close> on \<open>None\<close>, a bool and an int, the only values besides strings
  that the samples format.  \<open>strptime\<close> accepts the date \<open>2025-03-01\<close> (day number 739311)
  and the time \<open>09:00\<close>, and rejects the empty string.  The sample backend answers the
  connection probe and refuses every other request; the sample network serves one feed.
\<close>

definition sample_py_str :: "int json \<Rightarrow> string" where
  "sample_py_str v =
     (case v of
        JNull \<Rightarrow> ''None''
      | JBool b \<Rightarrow> (if b then ''True'' else ''False'')
      | JInt i \<Rightarrow> str_int i
      | _ \<Rightarrow> [])"

definition sample_float_truthy :: "int \<Rightarrow> bool" where
  "sample_float_truthy x = (x \<noteq> 0)"

definition sample_builtins :: "int builtins" where
  "sample_builtins = \<lparr>py_str = sample_py_str, float_truthy = sample_float_truthy\<rparr>"




definition sample_http :: "int http" where
  "sample_http req =
     (if req = HttpGet ''http://127.0.0.1:8001/resources'' None then Inr (Inr (JArr []))
      else Inl ''All connection attempts failed'')"

definition sample_feed :: parsed_feed where
  "sample_feed =
     \<lparr>feed_fields = [''title'' \<mapsto> ''Example feed''],
      feed_entries =
        [[''title'' \<mapsto> ''First post'', ''link'' \<mapsto> ''https://feeds.example.com/1'']]\<rparr>"

definition sample_net :: "nat \<Rightarrow> string \<Rightarrow> string + parsed_feed" where
  "sample_net i url = Inr sample_feed"

section \<open>Sample inputs\<close>

definition sample_event :: event where
  "sample_event =
     \<lparr>ev_id = ''event_1_1740819600'', ev_title = ''Standup'', ev_description = [],
      ev_date = ''2025-03-01'', ev_time = Some ''09:00'', ev_location = [],
      ev_created_at = ''2025-03-01T08:00:00''\<rparr>"


definition sample_config :: "int config" where
  "sample_config =
     [''default_country'' \<mapsto> CStr ''us'', ''max_articles'' \<mapsto> CInt 20]"

text \<open>Replies of the model.\<close>

definition reply_plain :: string where
  "reply_plain = ''Hello! How can I help you today?''"

definition reply_trailing_comma :: string where
  \<open>reply_trailing_comma = ''{"action": "use_tool", "tool": "get_events",}''\<close>

definition reply_no_action :: string where
  \<open>reply_no_action = ''Noted. {"tool": "get_events", "arguments": {}}''\<close>

definition reply_embedded :: string where
  \<open>reply_embedded =
     ''Sure. {"action": "use_tool", "tool": "get_events", "arguments": {}} Done.''\<close>

definition reply_two_objects :: string where
  \<open>reply_two_objects =
     ''Sure. {"action": "use_tool", "tool": "get_events", "arguments": {}} (use {} for none)''\<close>

definition reply_two_objects_span :: string where
  \<open>reply_two_objects_span =
     ''{"action": "use_tool", "tool": "get_events", "arguments": {}} (use {}''\<close>

definition reply_string_arguments :: string where
  \<open>reply_string_arguments =
     ''{"action": "use_tool", "tool": "get_events", "arguments": "today"}''\<close>

definition reply_no_arguments :: string where
  \<open>reply_no_arguments = ''{"action": "use_tool", "tool": "get_events"}''\<close>

text \<open>Clients and feed lists.\<close>

definition fresh_client :: mcp_client where
  "fresh_client =
     \<lparr>base_url = ''http://127.0.0.1:8001'', connected = False, available_tools = []\<rparr>"

definition connected_client :: mcp_client where
  "connected_client =
     \<lparr>base_url = ''http://127.0.0.1:8001'', connected = True, available_tools = tool_catalog\<rparr>"

definition sample_urls :: "string list" where
  "sample_urls =
     [''https://feeds.example.com/a.xml'', ''http://127.0.0.1/x'',
      ''https://feeds.example.com/b.xml'']"

definition sample_data :: feed_data where
  "sample_data =
     \<lparr>feed_title = ''Example feed'', feed_description = [],
      entries = [\<lparr>fe_title = ''First post'', fe_link = ''https://feeds.example.com/1'',
                  fe_description = [], fe_published = [], fe_author = []\<rparr>],
      total_entries = 1\<rparr>"

section \<open>Calendar: deleting an unknown id\<close>

lemma delete_scan_absent:
  "event_id \<notin> ev_id ` set es \<Longrightarrow> delete_scan event_id seen es = None"
  by (induction es arbitrary: seen) auto

text \<open>
  C8: for every event store and every \<open>event_id\<close> that is the id of no stored event,
  \<open>delete_event\<close> answers 404 "Event not found" and the stored list (so also its length) is
  the one before the call.
\<close>

theorem delete_event_unknown_id:
  assumes "event_id \<notin> ev_id ` set evs"
  shows "delete_event event_id evs = (Inl (HTTPException 404 ''Event not found''), evs)
         \<and> length (snd (delete_event event_id evs)) = length evs"
  using assms by (simp add: delete_event_def delete_scan_absent)

theorem delete_event_unknown_id_witness:
  "''event_9_1'' \<notin> ev_id ` set [sample_event]
   \<and> delete_event ''event_9_1'' [sample_event]
       = (Inl (HTTPException 404 ''Event not found''), [sample_event])
   \<and> length (snd (delete_event ''event_9_1'' [sample_event])) = length [sample_event]"
proof -
  have h: "''event_9_1'' \<notin> ev_id ` set [sample_event]"
    by (simp add: sample_event_def)
  show ?thesis
    using h delete_event_unknown_id [OF h] by simp
qed

section \<open>Calendar: adding, then listing\<close>






section \<open>Configuration: what an update touches\<close>

lemma update_config_cases:
  "(\<exists>e. update_config pi pf cu config = (Inl e, config))
   \<or> (\<exists>v. update_config pi pf cu config = set_config (cu_setting cu) v config)"
proof (cases "cu_setting cu \<in> set [''max_articles'', ''max_concurrent_requests'']")
  case True
  then show ?thesis
    by (cases "pi (cu_value cu)") (auto simp: update_config_def Let_def)
next
  case False
  then show ?thesis
    by (cases "pf (cu_value cu)") (auto simp: update_config_def Let_def)
qed

lemma update_config_frame:
  "k \<noteq> cu_setting cu \<Longrightarrow> snd (update_config pi pf cu config) k = config k"
  using update_config_cases[of pi pf cu config] by (auto simp: set_config_def)

lemma update_config_success:
  "fst (update_config pi pf cu config) = Inr r \<Longrightarrow>
     snd (update_config pi pf cu config) = config(cu_setting cu \<mapsto> cr_new_value r)"
  using update_config_cases[of pi pf cu config] by (auto simp: set_config_def)

text \<open>
  C10: a \<open>POST /config\<close> that names a setting of the allow-list leaves every other key of the
  configuration at its previous value, and when it succeeds the configuration is the old one
  with that one key set to the new value; for a setting outside the allow-list the validator
  rejects the body and the configuration is unchanged.
\<close>

theorem post_config_frame:
  "(setting \<in> set allowed_settings \<longrightarrow>
      (\<forall>k. k \<noteq> setting \<longrightarrow> snd (post_config pi pf setting val config) k = config k)
      \<and> (\<forall>r. fst (post_config pi pf setting val config) = Inr r \<longrightarrow>
             snd (post_config pi pf setting val config) = config(setting \<mapsto> cr_new_value r)))
   \<and> (setting \<notin> set allowed_settings \<longrightarrow>
         snd (post_config pi pf setting val config) = config
         \<and> isl (fst (post_config pi pf setting val config)))"
proof (cases "setting \<in> set allowed_settings")
  case True
  then have cu: "ConfigUpdate setting val = Inr \<lparr>cu_setting = setting, cu_value = val\<rparr>"
    by (simp add: ConfigUpdate_def validate_setting_def)
  show ?thesis
    using True update_config_frame[of _ "\<lparr>cu_setting = setting, cu_value = val\<rparr>" pi pf config]
      update_config_success[of pi pf "\<lparr>cu_setting = setting, cu_value = val\<rparr>" config]
    by (simp add: post_config_def cu)
next
  case False
  then show ?thesis
    by (simp add: post_config_def ConfigUpdate_def validate_setting_def)
qed

theorem post_config_frame_witness:
  "''max_articles'' \<in> set allowed_settings
   \<and> snd (post_config decimal whole_float ''max_articles'' ''50'' sample_config)
        ''default_country'' = Some (CStr ''us'')
   \<and> snd (post_config decimal whole_float ''max_articles'' ''50'' sample_config)
        ''max_articles'' = Some (CInt 50)
   \<and> ''rss_feeds'' \<notin> set allowed_settings
   \<and> snd (post_config decimal whole_float ''rss_feeds'' ''x'' sample_config)
       = sample_config"
proof -
  have h1: "''max_articles'' \<in> set allowed_settings" by (simp add: allowed_settings_def)
  have h2: "''rss_feeds'' \<notin> set allowed_settings" by (simp add: allowed_settings_def)
  have r: "fst (post_config decimal whole_float ''max_articles'' ''50'' sample_config)
           = Inr \<lparr>cr_setting = ''max_articles'', cr_old_value = Some (CInt 20),
                  cr_new_value = CInt 50\<rparr>"
    by (simp add: post_config_def ConfigUpdate_def validate_setting_def allowed_settings_def
        update_config_def Let_def set_config_def decimal_def digit_value_def sample_config_def)
  have k: "''default_country'' \<noteq> ''max_articles''" by simp
  from post_config_frame
         [of "''max_articles''" decimal whole_float "''50''" sample_config] h1 k r
  have a: "snd (post_config decimal whole_float ''max_articles'' ''50'' sample_config)
             ''default_country'' = sample_config ''default_country''"
    and b: "snd (post_config decimal whole_float ''max_articles'' ''50'' sample_config)
             = sample_config(''max_articles'' \<mapsto> CInt 50)"
    by auto
  from post_config_frame
         [of "''rss_feeds''" decimal whole_float "''x''" sample_config] h2
  have c: "snd (post_config decimal whole_float ''rss_feeds'' ''x'' sample_config)
             = sample_config"
    by simp
  show ?thesis using h1 h2 a b c by (simp add: sample_config_def)
qed

section \<open>Reply parsing: what the handler does with a reply\<close>

lemmas json_eval =
  json_loads_def start_def emit_def is_digit_def is_letter_def unescape_def json_int_def
  decimal_def digit_value_def step_def open_value_def deliver_def close_object_def
  close_array_def set_key_def

lemma search_braces_plain: "search_braces reply_plain = None"
  by (simp add: search_braces_def reply_plain_def)

lemma extract_trailing_comma: "extract_json_from_text json_loads reply_trailing_comma = JNull"
  by (simp add: extract_json_from_text_def search_braces_def reply_trailing_comma_def json_eval)

lemma extract_no_action:
  "extract_json_from_text json_loads reply_no_action
   = JObj [(''tool'', JStr ''get_events''), (''arguments'', JObj [])]"
  by (simp add: extract_json_from_text_def search_braces_def reply_no_action_def json_eval)

lemma main_of_parsed:
  "main loads (Text content) =
     (case subscript (extract_json_from_text loads content) ''action'' of
        Inl e \<Rightarrow> Inl e
      | Inr a \<Rightarrow>
          (if a = JStr ''use_tool'' then
             (case subscript (extract_json_from_text loads content) ''tool'' of
                Inl e \<Rightarrow> Inl e
              | Inr tool \<Rightarrow>
                  (case subscript (extract_json_from_text loads content) ''arguments'' of
                     Inl e \<Rightarrow> Inl e
                   | Inr arguments \<Rightarrow> Inr (ToolAction tool arguments)))
           else
             (case subscript (extract_json_from_text loads content) ''content'' of
                Inl e \<Rightarrow> Inl e
              | Inr c \<Rightarrow> Inr (TextAction c))))"
  by (simp add: main_def response_content_def Let_def)

text \<open>
  C1: the handler run on three replies.  A reply with no JSON object and a reply whose JSON
  is malformed make \<open>extract_json_from_text\<close> return \<open>None\<close>, and \<open>response["action"]\<close>
  raises \<open>TypeError\<close>; a reply whose object has no \<open>action\<close> key raises \<open>KeyError\<close>.  In none
  of them does the handler produce a text action that carries the reply.
\<close>

theorem main_raises_without_action:
  "main loads (Text reply_plain) = Inl TypeError
   \<and> main json_loads (Text reply_trailing_comma) = Inl TypeError
   \<and> main json_loads (Text reply_no_action) = Inl (KeyError ''action'')"
proof (intro conjI)
  have "extract_json_from_text loads reply_plain = JNull"
    by (simp add: extract_json_from_text_def search_braces_plain)
  then show "main loads (Text reply_plain) = Inl TypeError"
    by (simp add: main_of_parsed subscript_def)
  show "main json_loads (Text reply_trailing_comma) = Inl TypeError"
    by (simp add: main_of_parsed extract_trailing_comma subscript_def)
  show "main json_loads (Text reply_no_action) = Inl (KeyError ''action'')"
    by (simp add: main_of_parsed extract_no_action subscript_def)
qed

lemma search_braces_two_objects:
  "search_braces reply_two_objects = Some reply_two_objects_span"
  by (simp add: search_braces_def reply_two_objects_def reply_two_objects_span_def)

lemma loads_two_objects_span: "json_loads reply_two_objects_span = None"
  by (simp add: reply_two_objects_span_def json_eval)

lemma extract_embedded:
  "extract_json_from_text json_loads reply_embedded
   = JObj [(''action'', JStr ''use_tool''), (''tool'', JStr ''get_events''),
           (''arguments'', JObj [])]"
  by (simp add: extract_json_from_text_def search_braces_def reply_embedded_def json_eval)

text \<open>
  C2: \<open>extract_json_from_text\<close> run on a reply that holds a well-formed tool call followed
  by prose with braces.  Whatever \<open>json.loads\<close> does, the text it is given runs from the first
  opening brace to the last closing brace of the reply, beyond the end of the first object;
  the reader rejects that text, the function returns \<open>None\<close> and the handler raises.  The same
  tool call followed by prose without braces is extracted.
\<close>

theorem extract_json_from_text_spans_to_last_brace:
  "extract_json_from_text loads reply_two_objects
     = (case loads reply_two_objects_span of Some v \<Rightarrow> v | None \<Rightarrow> JNull)
   \<and> extract_json_from_text json_loads reply_two_objects = JNull
   \<and> main json_loads (Text reply_two_objects) = Inl TypeError
   \<and> main json_loads (Text reply_embedded) = Inr (ToolAction (JStr ''get_events'') (JObj []))"
proof (intro conjI)
  show "extract_json_from_text loads reply_two_objects
     = (case loads reply_two_objects_span of Some v \<Rightarrow> v | None \<Rightarrow> JNull)"
    by (simp add: extract_json_from_text_def search_braces_two_objects)
  show n: "extract_json_from_text json_loads reply_two_objects = JNull"
    by (simp add: extract_json_from_text_def search_braces_two_objects loads_two_objects_span)
  show "main json_loads (Text reply_two_objects) = Inl TypeError"
    by (simp add: main_of_parsed n subscript_def)
  show "main json_loads (Text reply_embedded) = Inr (ToolAction (JStr ''get_events'') (JObj []))"
    by (simp add: main_of_parsed extract_embedded subscript_def)
qed

section \<open>Reply parsing: the arguments of a tool call\<close>

lemma loads_string_arguments:
  "json_loads reply_string_arguments
   = Some (JObj [(''action'', JStr ''use_tool''), (''tool'', JStr ''get_events''),
                 (''arguments'', JStr ''today'')])"
  by (simp add: reply_string_arguments_def json_eval)

lemma loads_no_arguments:
  "json_loads reply_no_arguments
   = Some (JObj [(''action'', JStr ''use_tool''), (''tool'', JStr ''get_events'')])"
  by (simp add: reply_no_arguments_def json_eval)

text \<open>
  C3, as the claim states it, fails: a reply whose \<open>arguments\<close> field is a string yields a
  tool call that carries that string, not an empty mapping.
\<close>

theorem generate_response_keeps_string_arguments:
  "generate_response json_loads reply_string_arguments
     = ToolCall (JStr ''get_events'') (JStr ''today'')
   \<and> JStr ''today'' \<noteq> (JObj [] :: int json)"
  by (simp add: generate_response_def loads_string_arguments dict_get_def)

text \<open>
  C3, amended: for every reply that parses to an object whose \<open>action\<close> is \<open>use_tool\<close>,
  \<open>generate_response\<close> raises nothing and returns a tool call with the object's \<open>tool\<close>
  (\<open>None\<close> when absent); its arguments are the empty mapping when the \<open>arguments\<close> field is
  missing, and the field's value as it is when the field is present.
\<close>

theorem generate_response_tool_call:
  assumes "loads content = Some (JObj items)"
    and "map_of items ''action'' = Some (JStr ''use_tool'')"
  shows "generate_response loads content
         = ToolCall (dict_get items ''tool'' JNull)
             (case map_of items ''arguments'' of None \<Rightarrow> JObj [] | Some v \<Rightarrow> v)"
  using assms by (simp add: generate_response_def dict_get_def)

theorem generate_response_tool_call_witness:
  "json_loads reply_no_arguments
     = Some (JObj [(''action'', JStr ''use_tool''), (''tool'', JStr ''get_events'')])
   \<and> map_of [(''action'', JStr ''use_tool''), (''tool'', JStr ''get_events'' :: int json)]
        ''action'' = Some (JStr ''use_tool'')
   \<and> generate_response json_loads reply_no_arguments
       = ToolCall (JStr ''get_events'') (JObj [])"
proof -
  let ?items = "[(''action'', JStr ''use_tool''), (''tool'', JStr ''get_events'' :: int json)]"
  have h1: "json_loads reply_no_arguments = Some (JObj ?items)"
    by (rule loads_no_arguments)
  have h2: "map_of ?items ''action'' = Some (JStr ''use_tool'')"
    by simp
  show ?thesis
    using h1 h2 generate_response_tool_call [of json_loads reply_no_arguments ?items, OF h1 h2]
    by (simp add: dict_get_def)
qed

section \<open>Tool dispatch: requests that are refused\<close>

lemma probe_sent:
  "snd (if \<not> connected self then connect http self else (self, []))
   = (if connected self then [] else [HttpGet (base_url self @ ''/resources'') None])"
  by (simp add: connect_def list_tools_def Let_def split: sum.splits prod.splits)

lemma call_tool_split:
  "call_tool lib http self tool_name arguments =
     (fst (dispatch lib http (fst (if \<not> connected self then connect http self else (self, [])))
             tool_name arguments),
      fst (if \<not> connected self then connect http self else (self, [])),
      snd (if \<not> connected self then connect http self else (self, []))
      @ snd (dispatch lib http (fst (if \<not> connected self then connect http self else (self, [])))
               tool_name arguments))"
  by (simp add: call_tool_def split: prod.splits)

lemma in_catalog:
  "(tool_name \<in> JStr ` fst ` set tool_catalog) =
   (tool_name = JStr ''search_news'' \<or> tool_name = JStr ''get_top_headlines''
    \<or> tool_name = JStr ''search_web'' \<or> tool_name = JStr ''parse_rss_feed''
    \<or> tool_name = JStr ''add_event'' \<or> tool_name = JStr ''get_events''
    \<or> tool_name = JStr ''delete_event'' \<or> tool_name = JStr ''update_config'')"
  by (auto simp: tool_catalog_def)

lemma dispatch_unknown:
  "tool_name \<notin> JStr ` fst ` set tool_catalog \<Longrightarrow>
   dispatch lib http self tool_name arguments
   = (error_dict (''Unknown tool: '' @ format_value lib tool_name), [])"
  unfolding in_catalog by (simp add: dispatch_def)

lemma dispatch_delete_missing:
  "map_of items ''event_id'' = None \<Longrightarrow>
   dispatch lib http self (JStr ''delete_event'') (JObj items)
   = (error_dict ''event_id is required'', [])"
  by (simp add: dispatch_def dict_get_def truthy_def)

text \<open>
  C7, as the claim states it, fails: on a client that is not connected, \<open>call_tool\<close> first
  calls \<open>connect\<close>, which sends \<open>GET /resources\<close> to the backend, also when the tool is
  unknown.
\<close>

theorem call_tool_unknown_tool_probes:
  "snd (snd (call_tool sample_builtins sample_http fresh_client (JStr ''launch_rocket'') (JObj [])))
   = [HttpGet ''http://127.0.0.1:8001/resources'' None]"
  by (simp add: call_tool_def connect_def list_tools_def fresh_client_def sample_http_def
      dispatch_def format_value_def Let_def)

text \<open>
  C7, amended: for a tool name outside the catalog \<open>call_tool\<close> returns
  \<open>{"error": "Unknown tool: <name>"}\<close>, and for \<open>delete_event\<close> with an arguments mapping
  that has no \<open>event_id\<close> it returns \<open>{"error": "event_id is required"}\<close>; in both cases the
  only request sent is the connection probe \<open>GET /resources\<close>, sent exactly when the client
  was not connected, so a connected client sends nothing.
\<close>

theorem call_tool_refusals:
  "(tool_name \<notin> JStr ` fst ` set tool_catalog \<longrightarrow>
      fst (call_tool lib http self tool_name arguments)
        = error_dict (''Unknown tool: '' @ format_value lib tool_name)
      \<and> snd (snd (call_tool lib http self tool_name arguments))
        = (if connected self then [] else [HttpGet (base_url self @ ''/resources'') None]))
   \<and> (map_of items ''event_id'' = None \<longrightarrow>
      fst (call_tool lib http self (JStr ''delete_event'') (JObj items))
        = error_dict ''event_id is required''
      \<and> snd (snd (call_tool lib http self (JStr ''delete_event'') (JObj items)))
        = (if connected self then [] else [HttpGet (base_url self @ ''/resources'') None]))"
  using probe_sent[of self http]
  by (simp add: call_tool_split dispatch_unknown dispatch_delete_missing)

theorem call_tool_refusals_witness:
  "JStr ''launch_rocket'' \<notin> JStr ` fst ` set tool_catalog
   \<and> fst (call_tool sample_builtins sample_http connected_client (JStr ''launch_rocket'') (JObj []))
       = JObj [(''error'', JStr ''Unknown tool: launch_rocket'')]
   \<and> snd (snd (call_tool sample_builtins sample_http connected_client
                  (JStr ''launch_rocket'') (JObj []))) = []
   \<and> map_of ([] :: (string \<times> int json) list) ''event_id'' = None
   \<and> fst (call_tool sample_builtins sample_http connected_client (JStr ''delete_event'') (JObj []))
       = JObj [(''error'', JStr ''event_id is required'')]
   \<and> snd (snd (call_tool sample_builtins sample_http connected_client
                  (JStr ''delete_event'') (JObj []))) = []"
proof -
  have h1: "JStr ''launch_rocket'' \<notin> JStr ` fst ` set tool_catalog"
    by (simp add: in_catalog)
  have h2: "map_of ([] :: (string \<times> int json) list) ''event_id'' = None"
    by simp
  have c: "connected connected_client" by (simp add: connected_client_def)
  note t = call_tool_refusals [of "JStr ''launch_rocket''" sample_builtins sample_http
             connected_client "JObj []" "[]"]
  from t h1 c
  have a: "fst (call_tool sample_builtins sample_http connected_client
                  (JStr ''launch_rocket'') (JObj []))
             = error_dict (''Unknown tool: '' @ format_value sample_builtins (JStr ''launch_rocket''))
           \<and> snd (snd (call_tool sample_builtins sample_http connected_client
                          (JStr ''launch_rocket'') (JObj []))) = []"
    by auto
  from t h2 c
  have b: "fst (call_tool sample_builtins sample_http connected_client
                  (JStr ''delete_event'') (JObj []))
             = error_dict ''event_id is required''
           \<and> snd (snd (call_tool sample_builtins sample_http connected_client
                          (JStr ''delete_event'') (JObj []))) = []"
    by auto
  from a have a': "fst (call_tool sample_builtins sample_http connected_client
                  (JStr ''launch_rocket'') (JObj []))
             = JObj [(''error'', JStr ''Unknown tool: launch_rocket'')]"
    by (simp add: error_dict_def format_value_def)
  from b have b': "fst (call_tool sample_builtins sample_http connected_client
                  (JStr ''delete_event'') (JObj []))
             = JObj [(''error'', JStr ''event_id is required'')]"
    by (simp add: error_dict_def)
  show ?thesis
    using h1 h2 a a' b b' by blast
qed

section \<open>Feed fetching: one entry per target, in order\<close>

lemma fetch_single_url:
  "result_url (fst (fetch_single_rss_feed up pi session url n)) = Some url"
  by (simp add: fetch_single_rss_feed_def result_url_def Let_def split: sum.splits)

lemma fetch_feeds_concurrent_returns:
  assumes "0 < max_concurrent"
  shows "fetch_feeds_concurrent up pi net urls max_concurrent =
     Returns (\<lparr>feeds = map (\<lambda>(i, u). fst (fetch_single_rss_feed up pi (net i) u 5))
                          (enumerate 0 urls),
               total_feeds = length urls\<rparr>,
              map (\<lambda>(i, u). snd (fetch_single_rss_feed up pi (net i) u 5)) (enumerate 0 urls))"
  using assms
  by (simp add: fetch_feeds_concurrent_def Let_def process_result_def comp_def case_prod_unfold)

lemma feeds_nth:
  assumes "i < length urls"
  shows "map (\<lambda>(i, u). fst (fetch_single_rss_feed up pi (net i) u 5)) (enumerate 0 urls) ! i
         = fst (fetch_single_rss_feed up pi (net i) (urls ! i) 5)"
  using assms by (simp add: nth_enumerate_eq)

text \<open>
  C4: with a cap of at least 1, \<open>fetch_feeds_concurrent\<close> returns, and the aggregate has one
  entry per input URL, \<open>total_feeds\<close> equal to their number, the entry at position \<open>i\<close> being
  the result of fetching the URL at position \<open>i\<close> and carrying that URL.  Changing what the
  network does to task \<open>j\<close> only (its failure, for one) leaves the number of entries and
  every entry at another position as they were.
\<close>

theorem fetch_feeds_concurrent_order:
  assumes "0 < max_concurrent"
  shows "\<exists>agg sent. fetch_feeds_concurrent up pi net urls max_concurrent = Returns (agg, sent)
     \<and> length (feeds agg) = length urls \<and> total_feeds agg = length urls
     \<and> (\<forall>i<length urls.
           feeds agg ! i = fst (fetch_single_rss_feed up pi (net i) (urls ! i) 5)
           \<and> result_url (feeds agg ! i) = Some (urls ! i))
     \<and> (\<forall>net' j. (\<forall>i. i \<noteq> j \<longrightarrow> net' i = net i) \<longrightarrow>
           (\<exists>agg' sent'.
              fetch_feeds_concurrent up pi net' urls max_concurrent = Returns (agg', sent')
              \<and> length (feeds agg') = length urls
              \<and> (\<forall>i<length urls. i \<noteq> j \<longrightarrow> feeds agg' ! i = feeds agg ! i)))"
proof -
  let ?f = "\<lambda>net. map (\<lambda>(i, u). fst (fetch_single_rss_feed up pi (net i) u 5)) (enumerate 0 urls)"
  let ?agg = "\<lambda>net. \<lparr>feeds = ?f net, total_feeds = length urls\<rparr>"
  let ?sent = "\<lambda>net. map (\<lambda>(i, u). snd (fetch_single_rss_feed up pi (net i) u 5))
                        (enumerate 0 urls)"
  have ret: "\<And>net. fetch_feeds_concurrent up pi net urls max_concurrent
                    = Returns (?agg net, ?sent net)"
    using fetch_feeds_concurrent_returns[OF assms] .
  have len: "\<And>net. length (feeds (?agg net)) = length urls" by simp
  have nth: "\<And>net i. i < length urls \<Longrightarrow>
      feeds (?agg net) ! i = fst (fetch_single_rss_feed up pi (net i) (urls ! i) 5)"
    using feeds_nth by simp
  have iso: "\<And>net' j i. (\<forall>i. i \<noteq> j \<longrightarrow> net' i = net i) \<Longrightarrow> i < length urls \<Longrightarrow> i \<noteq> j \<Longrightarrow>
      feeds (?agg net') ! i = feeds (?agg net) ! i"
    using nth by simp
  show ?thesis
    apply (rule exI[of _ "?agg net"], rule exI[of _ "?sent net"])
    apply (intro conjI)
        apply (rule ret)
       apply (rule len)
      apply simp
     apply (use nth fetch_single_url in simp)
    apply (intro allI impI)
    subgoal for net' j
      apply (rule exI[of _ "?agg net'"], rule exI[of _ "?sent net'"])
      using ret[of net'] iso[of j net'] by simp
    done
qed

lemma sample_fetch:
  "fetch_feeds_concurrent simple_urlparse decimal sample_net sample_urls 2
   = Returns (\<lparr>feeds = [FeedData ''https://feeds.example.com/a.xml'' sample_data,
                        FeedError ''http://127.0.0.1/x'' ''Invalid or unsafe URL'',
                        FeedData ''https://feeds.example.com/b.xml'' sample_data],
               total_feeds = 3\<rparr>,
              [[''https://feeds.example.com/a.xml''], [], [''https://feeds.example.com/b.xml'']])"
  by (simp add: fetch_feeds_concurrent_def sample_urls_def enumerate_eq_zip upt_rec
      fetch_single_rss_feed_def validate_url_def simple_urlparse_def host_startswith_def
      startswith_def sample_net_def sample_feed_def sample_data_def make_entry_def field_def
      slice_to_def process_result_def Let_def)

theorem fetch_feeds_concurrent_order_witness:
  "0 < (2::int)
   \<and> (\<exists>agg sent. fetch_feeds_concurrent simple_urlparse decimal sample_net sample_urls 2
                     = Returns (agg, sent)
         \<and> length (feeds agg) = 3 \<and> total_feeds agg = 3
         \<and> feeds agg ! 1 = FeedError ''http://127.0.0.1/x'' ''Invalid or unsafe URL''
         \<and> result_url (feeds agg ! 2) = Some ''https://feeds.example.com/b.xml'')"
proof -
  have h: "0 < (2::int)" by simp
  have l: "length sample_urls = 3" by (simp add: sample_urls_def)
  from fetch_feeds_concurrent_order [OF h, of simple_urlparse decimal sample_net sample_urls]
  obtain agg sent where
    r: "fetch_feeds_concurrent simple_urlparse decimal sample_net sample_urls 2
        = Returns (agg, sent)"
    and n: "length (feeds agg) = length sample_urls" "total_feeds agg = length sample_urls"
    and u: "\<forall>i<length sample_urls.
              feeds agg ! i
                = fst (fetch_single_rss_feed simple_urlparse decimal (sample_net i)
                         (sample_urls ! i) 5)
              \<and> result_url (feeds agg ! i) = Some (sample_urls ! i)"
    by blast
  have "(2::nat) < length sample_urls" using l by simp
  with u have u2: "result_url (feeds agg ! 2) = Some (sample_urls ! 2)" by blast
  from r sample_fetch
  have "feeds agg ! 1 = FeedError ''http://127.0.0.1/x'' ''Invalid or unsafe URL''"
    by auto
  with h r n l u2 show ?thesis by (simp add: sample_urls_def)
qed

section \<open>Feed fetching: targets the guard lets through\<close>

text \<open>
  C6: \<open>fetch_single_rss_feed\<close> run on a target whose host is the loopback address
  \<open>127.0.0.2\<close>.  The guard compares the host with \<open>localhost\<close>, \<open>127.0.0.1\<close> and \<open>0.0.0.0\<close>
  only, so it accepts the target and the request is sent.
\<close>

theorem fetch_single_rss_feed_requests_loopback:
  assumes "urlparse url = Some \<lparr>scheme = ''http'', hostname = Some ''127.0.0.2''\<rparr>"
  shows "validate_url urlparse pi url
     \<and> snd (fetch_single_rss_feed urlparse pi session url n) = [url]"
proof -
  have v: "validate_url urlparse pi url"
    using assms by (simp add: validate_url_def host_startswith_def startswith_def)
  then show ?thesis
    by (simp add: fetch_single_rss_feed_def Let_def split: sum.splits)
qed

theorem fetch_single_rss_feed_requests_loopback_witness:
  "simple_urlparse ''http://127.0.0.2/x''
     = Some \<lparr>scheme = ''http'', hostname = Some ''127.0.0.2''\<rparr>
   \<and> validate_url simple_urlparse decimal ''http://127.0.0.2/x''
   \<and> snd (fetch_single_rss_feed simple_urlparse decimal (sample_net 0) ''http://127.0.0.2/x'' 5)
       = [''http://127.0.0.2/x'']"
proof -
  have h: "simple_urlparse ''http://127.0.0.2/x''
           = Some \<lparr>scheme = ''http'', hostname = Some ''127.0.0.2''\<rparr>"
    by (simp add: simple_urlparse_def)
  show ?thesis
    using h fetch_single_rss_feed_requests_loopback
              [of simple_urlparse "''http://127.0.0.2/x''" decimal "sample_net 0" 5, OF h]
    by simp
qed

end
